theory Spec2Isabelle
  imports Complex_Main "HOL-Library.Sublist"
begin

section \<open>Geocoding Georgia employer addresses: the script as functions\<close>

text \<open>
  The script \<^verbatim>\<open>problemsets/pset3/georgia_jobs_map.py\<close> is a straight-line pipeline:
  read the jobs table, keep the Georgia rows, build two address strings per row, drop
  duplicate address pairs, consult a cache table, geocode what is still missing (flushing
  the accumulated results from time to time), write the cache, and join the coordinates
  back onto the rows. Every stage is a function below; the external geocoder is a
  parameter that threads an abstract world state, and the effects of a run (lookups,
  the extra pause, writes of the cache file) are recorded in a trace.

  Text is ASCII: a \<^typ>\<open>string\<close> is a list of bytes, and the case functions
  below only know the 26 Latin letters.
\<close>

subsection \<open>\<^verbatim>\<open>str.strip\<close> and \<^verbatim>\<open>str.title\<close>\<close>

definition lowercase_letters :: string where
  "lowercase_letters = ''abcdefghijklmnopqrstuvwxyz''"

definition uppercase_letters :: string where
  "uppercase_letters = ''ABCDEFGHIJKLMNOPQRSTUVWXYZ''"

definition upper :: "char \<Rightarrow> char" where
  "upper c = (case map_of (zip lowercase_letters uppercase_letters) c of
                Some u \<Rightarrow> u | None \<Rightarrow> c)"

definition lower :: "char \<Rightarrow> char" where
  "lower c = (case map_of (zip uppercase_letters lowercase_letters) c of
                Some l \<Rightarrow> l | None \<Rightarrow> c)"

definition is_cased :: "char \<Rightarrow> bool" where
  "is_cased c = (c \<in> set lowercase_letters \<or> c \<in> set uppercase_letters)"

text \<open>The ASCII characters for which \<^verbatim>\<open>str.isspace\<close> holds.\<close>

definition is_space :: "char \<Rightarrow> bool" where
  "is_space c = (c \<in> set [CHR '' '', CHR 0x09, CHR 0x0A, CHR 0x0B, CHR 0x0C, CHR 0x0D,
                            CHR 0x1C, CHR 0x1D, CHR 0x1E, CHR 0x1F])"

definition strip :: "string \<Rightarrow> string" where
  "strip s = rev (dropWhile is_space (rev (dropWhile is_space s)))"

text \<open>
  \<^verbatim>\<open>str.title\<close>: a character that follows a cased character is lower-cased, any other
  character is upper-cased.
\<close>

fun title_from :: "bool \<Rightarrow> string \<Rightarrow> string" where
  "title_from previous_is_cased [] = []"
| "title_from previous_is_cased (c # cs) =
     (if previous_is_cased then lower c else upper c) # title_from (is_cased c) cs"

definition title :: "string \<Rightarrow> string" where
  "title s = title_from False s"

subsection \<open>The jobs table and the address normalizer (lines 12 to 36)\<close>

text \<open>
  A row of \<^verbatim>\<open>jobs.csv\<close>. A missing cell (NaN) is \<open>None\<close>. The postal code column may
  hold numbers or text, so its cell type is a parameter, and \<^verbatim>\<open>astype(str)\<close> is a
  parameter \<open>astype_str\<close> of the functions that render it. The columns the script never
  names are kept in \<open>other_columns\<close>.
\<close>

record ('z, 'o) job =
  EMPLOYER_ADDRESS_1 :: "string option"
  EMPLOYER_CITY :: "string option"
  EMPLOYER_STATE :: "string option"
  EMPLOYER_POSTAL_CODE :: "'z option"
  other_columns :: 'o

definition fillna :: "'a \<Rightarrow> 'a option \<Rightarrow> 'a" where
  "fillna d cell = (case cell of None \<Rightarrow> d | Some v \<Rightarrow> v)"

text \<open>Line 16: \<^verbatim>\<open>jobs[jobs["EMPLOYER_STATE"] == "GA"]\<close>.\<close>

definition filter_ga :: "('z, 'o) job list \<Rightarrow> ('z, 'o) job list" where
  "filter_ga jobs = filter (\<lambda>j. EMPLOYER_STATE j = Some ''GA'') jobs"

text \<open>Lines 20 and 21: street and city are filled, stripped and title-cased in place.\<close>

definition standardize :: "('z, 'o) job \<Rightarrow> ('z, 'o) job" where
  "standardize j =
     j\<lparr>EMPLOYER_ADDRESS_1 := Some (title (strip (fillna '''' (EMPLOYER_ADDRESS_1 j)))),
       EMPLOYER_CITY := Some (title (strip (fillna '''' (EMPLOYER_CITY j))))\<rparr>"

text \<open>Lines 24 to 36, on a row whose street and city are already standardized.\<close>

definition postal_text :: "('z \<Rightarrow> string) \<Rightarrow> 'z option \<Rightarrow> string" where
  "postal_text astype_str cell = (case cell of None \<Rightarrow> '''' | Some v \<Rightarrow> astype_str v)"

definition make_full_address :: "('z \<Rightarrow> string) \<Rightarrow> ('z, 'o) job \<Rightarrow> string" where
  "make_full_address astype_str j =
     fillna '''' (EMPLOYER_ADDRESS_1 j) @ '', '' @
     fillna '''' (EMPLOYER_CITY j) @ '', '' @
     fillna '''' (EMPLOYER_STATE j) @ '' '' @
     postal_text astype_str (EMPLOYER_POSTAL_CODE j)"

definition make_simple_address :: "('z \<Rightarrow> string) \<Rightarrow> ('z, 'o) job \<Rightarrow> string" where
  "make_simple_address astype_str j =
     fillna '''' (EMPLOYER_CITY j) @ '', '' @
     fillna '''' (EMPLOYER_STATE j) @ '' '' @
     postal_text astype_str (EMPLOYER_POSTAL_CODE j)"

text \<open>A row of \<^verbatim>\<open>jobs_ga\<close> after line 36: the standardized row and its two new columns.\<close>

record ('z, 'o) ga_job =
  job_row :: "('z, 'o) job"
  job_full_address :: string
  job_simple_address :: string

definition address_normalizer :: "('z \<Rightarrow> string) \<Rightarrow> ('z, 'o) job \<Rightarrow> ('z, 'o) ga_job" where
  "address_normalizer astype_str j =
     (let j' = standardize j
      in \<lparr>job_row = j',
          job_full_address = make_full_address astype_str j',
          job_simple_address = make_simple_address astype_str j'\<rparr>)"

definition address_pair :: "('z, 'o) ga_job \<Rightarrow> string \<times> string" where
  "address_pair g = (job_full_address g, job_simple_address g)"

subsection \<open>The deduplicator (line 39)\<close>

text \<open>
  \<^verbatim>\<open>drop_duplicates()\<close> keeps a row unless an equal row stands before it
  (\<^verbatim>\<open>keep="first"\<close>), and keeps the order of the rows it keeps.
\<close>

fun drop_duplicates_from :: "'a list \<Rightarrow> 'a list \<Rightarrow> 'a list" where
  "drop_duplicates_from seen [] = []"
| "drop_duplicates_from seen (x # xs) =
     (if x \<in> set seen then drop_duplicates_from seen xs
      else x # drop_duplicates_from (x # seen) xs)"

definition drop_duplicates :: "'a list \<Rightarrow> 'a list" where
  "drop_duplicates xs = drop_duplicates_from [] xs"

text \<open>
  The specification's wording, for comparison: the distinct values in first-occurrence
  order, that is, the values at the positions where a value occurs for the first time.
\<close>

definition first_occurrences :: "'a list \<Rightarrow> 'a list" where
  "first_occurrences xs =
     map (\<lambda>i. xs ! i) (filter (\<lambda>i. xs ! i \<notin> set (take i xs)) [0..<length xs])"

definition unique_addresses_of :: "('z, 'o) ga_job list \<Rightarrow> (string \<times> string) list" where
  "unique_addresses_of jobs_ga = drop_duplicates (map address_pair jobs_ga)"

subsection \<open>The cache table and the geocoder\<close>

text \<open>
  A row of the cache table: \<open>None\<close> in a coordinate column is the empty CSV cell. The
  cache file is modelled by its parsed table (a list of rows, or no file at all).
\<close>

record entry =
  full_address :: string
  latitude :: "real option"
  longitude :: "real option"

text \<open>
  What one call of the rate-limited \<^verbatim>\<open>geocode\<close> does: it returns a location, returns
  \<^verbatim>\<open>None\<close>, or raises. The geocoder is a function of a world state and the query.
\<close>

datatype location = Location real real | NoLocation | GeocodeException

type_synonym 'w geocoder = "'w \<Rightarrow> string \<Rightarrow> location \<times> 'w"

text \<open>
  The effects of a run: \<open>Lookup a q\<close> is a call \<^verbatim>\<open>geocode(q)\<close> made while resolving the
  pending address \<open>a\<close>, \<open>ErrorSleep\<close> is \<^verbatim>\<open>time.sleep(2)\<close>, and \<open>Flush rows\<close> is a
  \<^verbatim>\<open>to_csv\<close> of the table \<open>rows\<close> to the cache file.
\<close>

datatype event = Lookup string string | ErrorSleep | Flush "entry list"

record 'w state =
  world :: 'w
  geocoded_results :: "entry list"
  cache_file :: "entry list option"
  trace :: "event list"

text \<open>Lines 45 to 56: the pending rows and the initial result list.\<close>

definition load_cache ::
  "(string \<times> string) list \<Rightarrow> entry list option \<Rightarrow> (string \<times> string) list \<times> entry list" where
  "load_cache unique_addresses cache =
     (case cache of
        Some geocoded_df \<Rightarrow>
          (let already_geocoded = set (map full_address geocoded_df)
           in (filter (\<lambda>row. fst row \<notin> already_geocoded) unique_addresses, geocoded_df))
      | None \<Rightarrow> (unique_addresses, []))"

definition initial_state :: "'w \<Rightarrow> entry list option \<Rightarrow> entry list \<Rightarrow> 'w state" where
  "initial_state w cache loaded =
     \<lparr>world = w, geocoded_results = loaded, cache_file = cache, trace = []\<rparr>"

text \<open>
  Lines 68 to 74, the lookups of the \<^verbatim>\<open>try\<close> block: the outcome, the world after the
  calls, and the queries sent. An exception in the first call leaves the block at once.
\<close>

definition try_geocode ::
  "'w geocoder \<Rightarrow> 'w \<Rightarrow> string \<times> string \<Rightarrow> location \<times> 'w \<times> string list" where
  "try_geocode geocode w row =
     (let address = fst row; simple_addr = snd row;
          (location, w1) = geocode w address
      in if location = NoLocation \<and> simple_addr \<noteq> address
         then (let (location2, w2) = geocode w1 simple_addr
               in (location2, w2, [address, simple_addr]))
         else (location, w1, [address]))"

definition negative_entry :: "string \<Rightarrow> entry" where
  "negative_entry address = \<lparr>full_address = address, latitude = None, longitude = None\<rparr>"

definition result_entry :: "string \<Rightarrow> location \<Rightarrow> entry" where
  "result_entry address location =
     (case location of
        Location lat lon \<Rightarrow> \<lparr>full_address = address, latitude = Some lat, longitude = Some lon\<rparr>
      | NoLocation \<Rightarrow> negative_entry address
      | GeocodeException \<Rightarrow> negative_entry address)"

text \<open>Lines 63 to 103: one iteration of the loop.\<close>

definition geocode_row :: "'w geocoder \<Rightarrow> 'w state \<Rightarrow> string \<times> string \<Rightarrow> 'w state" where
  "geocode_row geocode s row =
     (let address = fst row;
          (location, w, queries) = try_geocode geocode (world s) row;
          events = map (Lookup address) queries @
                   (if location = GeocodeException then [ErrorSleep] else []);
          results = geocoded_results s @ [result_entry address location];
          completed = length results
      in if completed mod 10 = 0
         then \<lparr>world = w, geocoded_results = results, cache_file = Some results,
               trace = trace s @ events @ [Flush results]\<rparr>
         else \<lparr>world = w, geocoded_results = results, cache_file = cache_file s,
               trace = trace s @ events\<rparr>)"

fun geocoding_loop :: "'w geocoder \<Rightarrow> (string \<times> string) list \<Rightarrow> 'w state \<Rightarrow> 'w state" where
  "geocoding_loop geocode [] s = s"
| "geocoding_loop geocode (row # rows) s = geocoding_loop geocode rows (geocode_row geocode s row)"

text \<open>Lines 106 and 107: the write after the loop.\<close>

definition final_flush :: "'w state \<Rightarrow> 'w state" where
  "final_flush s =
     s\<lparr>cache_file := Some (geocoded_results s),
       trace := trace s @ [Flush (geocoded_results s)]\<rparr>"

subsection \<open>The success count and the merger (lines 108 to 118)\<close>

datatype error = FileNotFoundError | KeyError string

text \<open>
  \<^verbatim>\<open>pd.DataFrame(geocoded_results)\<close> takes its columns from the dictionaries of the
  list: a table built from the empty list has no column at all.
\<close>

definition columns :: "entry list \<Rightarrow> string list" where
  "columns geocoded_df =
     (if geocoded_df = [] then [] else [''full_address'', ''latitude'', ''longitude''])"

definition success_count :: "entry list \<Rightarrow> error + nat" where
  "success_count geocoded_df =
     (if ''latitude'' \<in> set (columns geocoded_df)
      then Inr (length (filter (\<lambda>e. latitude e \<noteq> None) geocoded_df))
      else Inl (KeyError ''latitude''))"

text \<open>
  Line 112, a left join on \<^verbatim>\<open>full_address\<close>: a row of the left table is paired with
  every row of the right table that has its key, in order, and stands once with empty
  coordinates when there is none.
\<close>

definition merge_left ::
  "('z, 'o) ga_job list \<Rightarrow> entry list \<Rightarrow> (('z, 'o) ga_job \<times> real option \<times> real option) list" where
  "merge_left jobs_ga geocoded_df =
     concat (map (\<lambda>j.
       (let matches = filter (\<lambda>e. full_address e = job_full_address j) geocoded_df
        in if matches = [] then [(j, None, None)]
           else map (\<lambda>e. (j, latitude e, longitude e)) matches)) jobs_ga)"

datatype point = Point real real

record ('z, 'o) resolved =
  resolved_job :: "('z, 'o) ga_job"
  resolved_latitude :: real
  resolved_longitude :: real
  geometry :: point

text \<open>
  Line 113 drops the joined rows with an empty coordinate; line 117 builds the point of
  each remaining row from \<^verbatim>\<open>zip(longitude, latitude)\<close>.
\<close>

definition dropna_geometry ::
  "(('z, 'o) ga_job \<times> real option \<times> real option) \<Rightarrow> ('z, 'o) resolved option" where
  "dropna_geometry joined =
     (case joined of
        (j, Some lat, Some lon) \<Rightarrow>
          Some \<lparr>resolved_job = j, resolved_latitude = lat, resolved_longitude = lon,
                geometry = Point lon lat\<rparr>
      | _ \<Rightarrow> None)"

definition resolve :: "('z, 'o) ga_job list \<Rightarrow> entry list \<Rightarrow> ('z, 'o) resolved list" where
  "resolve jobs_ga geocoded_df = List.map_filter dropna_geometry (merge_left jobs_ga geocoded_df)"

subsection \<open>The whole script up to the map's input\<close>

text \<open>
  \<open>jobs_csv\<close> is the parsed input file, \<open>None\<close> when it does not exist (line 13 then
  raises and nothing else runs). The result is the final state with either the error
  that ended the run or the rows handed to the plot.
\<close>

definition pipeline ::
  "('z \<Rightarrow> string) \<Rightarrow> 'w geocoder \<Rightarrow> ('z, 'o) job list option \<Rightarrow> entry list option \<Rightarrow> 'w
     \<Rightarrow> 'w state \<times> (error + ('z, 'o) resolved list)" where
  "pipeline astype_str geocode jobs_csv cache w =
     (case jobs_csv of
        None \<Rightarrow> (initial_state w cache [], Inl FileNotFoundError)
      | Some jobs \<Rightarrow>
          (let jobs_ga = map (address_normalizer astype_str) (filter_ga jobs);
               unique_addresses = unique_addresses_of jobs_ga;
               (to_geocode, loaded) = load_cache unique_addresses cache;
               s0 = initial_state w cache loaded;
               s1 = (if length to_geocode > 0 then geocoding_loop geocode to_geocode s0 else s0);
               s2 = final_flush s1
           in case success_count (geocoded_results s2) of
                Inl e \<Rightarrow> (s2, Inl e)
              | Inr n \<Rightarrow> (s2, Inr (resolve jobs_ga (geocoded_results s2)))))"

subsection \<open>Reading a run off its state\<close>

text \<open>
  The lookups of a trace as pairs (pending address, query sent), the tables written by
  its flushes, and the table that the cache file holds (no file: no row).
\<close>

fun lookups :: "event list \<Rightarrow> (string \<times> string) list" where
  "lookups [] = []"
| "lookups (Lookup a q # tr) = (a, q) # lookups tr"
| "lookups (ErrorSleep # tr) = lookups tr"
| "lookups (Flush rows # tr) = lookups tr"

fun flushes :: "event list \<Rightarrow> entry list list" where
  "flushes [] = []"
| "flushes (Lookup a q # tr) = flushes tr"
| "flushes (ErrorSleep # tr) = flushes tr"
| "flushes (Flush rows # tr) = rows # flushes tr"



subsection \<open>Example inputs\<close>

text \<open>
  Two Georgia rows that split the same text differently between street and city, and a
  geocoder that knows one string only.
\<close>

definition suite_in_city :: "(string, nat) job" where
  "suite_in_city =
     \<lparr>EMPLOYER_ADDRESS_1 = Some ''1 main st'', EMPLOYER_CITY = Some ''suite 5, atlanta'',
      EMPLOYER_STATE = Some ''GA'', EMPLOYER_POSTAL_CODE = Some ''30301'', other_columns = 1\<rparr>"

definition suite_in_street :: "(string, nat) job" where
  "suite_in_street =
     \<lparr>EMPLOYER_ADDRESS_1 = Some ''1 main st, suite 5'', EMPLOYER_CITY = Some '' ATLANTA'',
      EMPLOYER_STATE = Some ''GA'', EMPLOYER_POSTAL_CODE = Some ''30301'', other_columns = 2\<rparr>"

definition farm_job :: "(string, nat) job" where
  "farm_job =
     \<lparr>EMPLOYER_ADDRESS_1 = Some ''2 oak rd'', EMPLOYER_CITY = None,
      EMPLOYER_STATE = Some ''GA'', EMPLOYER_POSTAL_CODE = None, other_columns = 3\<rparr>"

definition farm_job_again :: "(string, nat) job" where
  "farm_job_again = farm_job\<lparr>other_columns := 4\<rparr>"

definition texas_job :: "(string, nat) job" where
  "texas_job =
     \<lparr>EMPLOYER_ADDRESS_1 = Some ''3 elm st'', EMPLOYER_CITY = Some ''austin'',
      EMPLOYER_STATE = Some ''TX'', EMPLOYER_POSTAL_CODE = Some ''73301'', other_columns = 5\<rparr>"

definition text_cell :: "string \<Rightarrow> string" where
  "text_cell v = v"

definition suite_geocoder :: "unit geocoder" where
  "suite_geocoder w q =
     (if q = ''Suite 5, Atlanta, GA 30301'' then Location 33 (- 84) else NoLocation, w)"

definition never_found :: "unit geocoder" where
  "never_found w q = (NoLocation, w)"

definition always_raises :: "unit geocoder" where
  "always_raises w q = (GeocodeException, w)"

definition atlanta_entry :: entry where
  "atlanta_entry =
     \<lparr>full_address = ''1 Main St, Suite 5, Atlanta, GA 30301'',
      latitude = Some 33, longitude = Some (- 84)\<rparr>"


section \<open>The address normalizer\<close>

text \<open>
  Claim C9. Two rows that agree on street, city, state and postal code, missing cells
  included, get the same pair (full address, simple address), whatever their other
  columns hold: the pair is a function of these four cells only.
\<close>

theorem normalize_deterministic:
  "EMPLOYER_ADDRESS_1 r1 = EMPLOYER_ADDRESS_1 r2 \<Longrightarrow>
   EMPLOYER_CITY r1 = EMPLOYER_CITY r2 \<Longrightarrow>
   EMPLOYER_STATE r1 = EMPLOYER_STATE r2 \<Longrightarrow>
   EMPLOYER_POSTAL_CODE r1 = EMPLOYER_POSTAL_CODE r2 \<Longrightarrow>
   address_pair (address_normalizer astype_str r1) = address_pair (address_normalizer astype_str r2)"
  by (simp add: address_pair_def address_normalizer_def standardize_def make_full_address_def
      make_simple_address_def Let_def)

lemma missing_cell_is_empty_text:
  "address_pair (address_normalizer astype_str (r\<lparr>EMPLOYER_ADDRESS_1 := None, EMPLOYER_CITY := None\<rparr>)) =
   address_pair (address_normalizer astype_str (r\<lparr>EMPLOYER_ADDRESS_1 := Some '''', EMPLOYER_CITY := Some ''''\<rparr>))"
  by (simp add: address_pair_def address_normalizer_def standardize_def make_full_address_def
      make_simple_address_def fillna_def Let_def)

lemma farm_job_pair:
  "address_pair (address_normalizer text_cell farm_job) = (''2 Oak Rd, , GA '', '', GA '')"
  by (simp add: farm_job_def address_pair_def address_normalizer_def standardize_def
      make_full_address_def make_simple_address_def postal_text_def fillna_def title_def
      strip_def is_space_def upper_def lower_def is_cased_def lowercase_letters_def
      uppercase_letters_def)

theorem normalize_deterministic_witness:
  "EMPLOYER_ADDRESS_1 farm_job = EMPLOYER_ADDRESS_1 farm_job_again \<and>
   EMPLOYER_CITY farm_job = EMPLOYER_CITY farm_job_again \<and>
   EMPLOYER_STATE farm_job = EMPLOYER_STATE farm_job_again \<and>
   EMPLOYER_POSTAL_CODE farm_job = EMPLOYER_POSTAL_CODE farm_job_again \<and>
   other_columns farm_job \<noteq> other_columns farm_job_again \<and>
   address_pair (address_normalizer text_cell farm_job_again) = (''2 Oak Rd, , GA '', '', GA '')"
proof -
  have street: "EMPLOYER_ADDRESS_1 farm_job = EMPLOYER_ADDRESS_1 farm_job_again"
    and city: "EMPLOYER_CITY farm_job = EMPLOYER_CITY farm_job_again"
    and state: "EMPLOYER_STATE farm_job = EMPLOYER_STATE farm_job_again"
    and postal: "EMPLOYER_POSTAL_CODE farm_job = EMPLOYER_POSTAL_CODE farm_job_again"
    and other: "other_columns farm_job \<noteq> other_columns farm_job_again"
    by (simp_all add: farm_job_again_def farm_job_def)
  from normalize_deterministic [OF street city state postal, of text_cell] farm_job_pair
  have "address_pair (address_normalizer text_cell farm_job_again) = (''2 Oak Rd, , GA '', '', GA '')"
    by simp
  with street city state postal other show ?thesis by blast
qed

section \<open>The deduplicator\<close>

lemma set_drop_duplicates_from: "set (drop_duplicates_from seen xs) = set xs - set seen"
  by (induction xs arbitrary: seen) auto

lemma distinct_drop_duplicates_from: "distinct (drop_duplicates_from seen xs)"
  by (induction xs arbitrary: seen) (auto simp: set_drop_duplicates_from)

lemma length_drop_duplicates_from: "length (drop_duplicates_from seen xs) \<le> length xs"
  by (induction xs arbitrary: seen) (auto simp: le_SucI)

lemma drop_duplicates_from_positions:
  "drop_duplicates_from seen xs =
     map (\<lambda>i. xs ! i) (filter (\<lambda>i. xs ! i \<notin> set seen \<union> set (take i xs)) [0..<length xs])"
proof (induction xs arbitrary: seen)
  case Nil
  show ?case by simp
next
  case (Cons x xs)
  have shift: "[0..<length (x # xs)] = 0 # map Suc [0..<length xs]"
    by (simp add: upt_conv_Cons map_Suc_upt del: upt_Suc)
  show ?case
  proof (cases "x \<in> set seen")
    case True
    then have "insert x (set seen) = set seen" by auto
    have "filter (\<lambda>i. xs ! i \<notin> set seen \<union> set (take i xs)) [0..<length xs] =
          filter (\<lambda>i. xs ! i \<notin> set seen \<and> xs ! i \<noteq> x \<and> xs ! i \<notin> set (take i xs)) [0..<length xs]"
      using True by (intro filter_cong) auto
    with True show ?thesis
      unfolding shift by (simp add: Cons.IH filter_map comp_def del: upt_Suc)
  next
    case False
    then show ?thesis
      unfolding shift
      by (simp add: Cons.IH filter_map comp_def conj_commute conj_left_commute del: upt_Suc)
  qed
qed

lemma drop_duplicates_first_occurrences: "drop_duplicates xs = first_occurrences xs"
  by (simp add: drop_duplicates_def first_occurrences_def drop_duplicates_from_positions)

lemma distinct_drop_duplicates: "distinct (drop_duplicates xs)"
  by (simp add: drop_duplicates_def distinct_drop_duplicates_from)

lemma set_drop_duplicates: "set (drop_duplicates xs) = set xs"
  by (simp add: drop_duplicates_def set_drop_duplicates_from)

lemma count_list_distinct: "distinct xs \<Longrightarrow> x \<in> set xs \<Longrightarrow> count_list xs x = 1"
  by (induction xs) auto

text \<open>
  Claim C8. The unique-address table has at most as many rows as the filtered table,
  holds the pair of every filtered row exactly once (and nothing else), and lists the
  pairs in the order in which they first occur.
\<close>

theorem unique_addresses_dedup:
  "length (unique_addresses_of jobs_ga) \<le> length jobs_ga \<and>
   (\<forall>g \<in> set jobs_ga. count_list (unique_addresses_of jobs_ga) (address_pair g) = 1) \<and>
   set (unique_addresses_of jobs_ga) = address_pair ` set jobs_ga \<and>
   unique_addresses_of jobs_ga = first_occurrences (map address_pair jobs_ga)"
proof -
  let ?u = "unique_addresses_of jobs_ga"
  have len: "length ?u \<le> length jobs_ga"
    using length_drop_duplicates_from [of "[]" "map address_pair jobs_ga"]
    by (simp add: unique_addresses_of_def drop_duplicates_def)
  have set_u: "set ?u = address_pair ` set jobs_ga"
    by (simp add: unique_addresses_of_def set_drop_duplicates)
  have dist: "distinct ?u"
    by (simp add: unique_addresses_of_def distinct_drop_duplicates)
  have once: "\<forall>g \<in> set jobs_ga. count_list ?u (address_pair g) = 1"
  proof
    fix g assume "g \<in> set jobs_ga"
    then have "address_pair g \<in> set ?u" using set_u by blast
    then show "count_list ?u (address_pair g) = 1" by (rule count_list_distinct [OF dist])
  qed
  have order: "?u = first_occurrences (map address_pair jobs_ga)"
    by (simp add: unique_addresses_of_def drop_duplicates_first_occurrences)
  from len once set_u order show ?thesis by blast
qed

theorem unique_addresses_dedup_witness:
  "address_normalizer text_cell farm_job_again
     \<in> set (map (address_normalizer text_cell) [farm_job, suite_in_city, farm_job_again]) \<and>
   count_list
     (unique_addresses_of (map (address_normalizer text_cell) [farm_job, suite_in_city, farm_job_again]))
     (address_pair (address_normalizer text_cell farm_job_again)) = 1 \<and>
   length (unique_addresses_of (map (address_normalizer text_cell) [farm_job, suite_in_city, farm_job_again]))
     \<le> 3"
proof -
  let ?jobs_ga = "map (address_normalizer text_cell) [farm_job, suite_in_city, farm_job_again]"
  note dedup = unique_addresses_dedup [of ?jobs_ga]
  have mem: "address_normalizer text_cell farm_job_again \<in> set ?jobs_ga"
    by simp
  from dedup mem
  have once: "count_list (unique_addresses_of ?jobs_ga)
                (address_pair (address_normalizer text_cell farm_job_again)) = 1"
    by blast
  from dedup have "length (unique_addresses_of ?jobs_ga) \<le> length ?jobs_ga"
    by blast
  then have len: "length (unique_addresses_of ?jobs_ga) \<le> 3"
    by simp
  from mem once len show ?thesis by blast
qed

section \<open>One iteration of the geocoding loop\<close>

lemma lookups_append: "lookups (xs @ ys) = lookups xs @ lookups ys"
  by (induction xs rule: lookups.induct) auto


lemma lookups_map_Lookup: "lookups (map (Lookup a) qs) = map (Pair a) qs"
  by (induction qs) auto




lemma geocode_row_lookups:
  "lookups (trace (geocode_row geocode s row)) =
     lookups (trace s) @ map (Pair (fst row)) (snd (snd (try_geocode geocode (world s) row)))"
  by (simp add: geocode_row_def Let_def lookups_append lookups_map_Lookup split: prod.splits)

lemma geocode_row_results:
  "geocoded_results (geocode_row geocode s row) =
     geocoded_results s @ [result_entry (fst row) (fst (try_geocode geocode (world s) row))]"
  by (simp add: geocode_row_def Let_def split: prod.splits)




section \<open>The loop and the whole run\<close>

lemma geocoding_loop_keys:
  "map full_address (geocoded_results (geocoding_loop geocode rows s)) =
     map full_address (geocoded_results s) @ map fst rows"
proof (induction rows arbitrary: s)
  case Nil
  show ?case by simp
next
  case (Cons row rows)
  have "full_address (result_entry a l) = a" for a l
    by (cases l) (simp_all add: result_entry_def negative_entry_def)
  then show ?case
    by (simp add: Cons.IH geocode_row_results)
qed


lemma geocoding_loop_lookups:
  "(a, q) \<in> set (lookups (trace (geocoding_loop geocode rows s))) \<Longrightarrow>
     (a, q) \<in> set (lookups (trace s)) \<or> a \<in> fst ` set rows"
proof (induction rows arbitrary: s)
  case Nil
  then show ?case by simp
next
  case (Cons row rows)
  from Cons.IH [of "geocode_row geocode s row"] Cons.prems
  have "(a, q) \<in> set (lookups (trace (geocode_row geocode s row))) \<or> a \<in> fst ` set rows"
    by simp
  then show ?case
    by (auto simp: geocode_row_lookups)
qed

lemma loop_guard:
  "(if length rows > 0 then geocoding_loop geocode rows s else s) = geocoding_loop geocode rows s"
  by (cases rows) simp_all

lemma pipeline_state:
  "fst (pipeline astype_str geocode (Some jobs) cache w) =
     final_flush
       (geocoding_loop geocode
          (fst (load_cache (unique_addresses_of (map (address_normalizer astype_str) (filter_ga jobs))) cache))
          (initial_state w cache
             (snd (load_cache (unique_addresses_of (map (address_normalizer astype_str) (filter_ga jobs))) cache))))"
  by (simp add: pipeline_def Let_def loop_guard case_prod_unfold split: sum.split)

lemma pipeline_result:
  "snd (pipeline astype_str geocode (Some jobs) cache w) =
     (case success_count (geocoded_results (fst (pipeline astype_str geocode (Some jobs) cache w))) of
        Inl e \<Rightarrow> Inl e
      | Inr n \<Rightarrow> Inr (resolve (map (address_normalizer astype_str) (filter_ga jobs))
                        (geocoded_results (fst (pipeline astype_str geocode (Some jobs) cache w)))))"
  unfolding pipeline_state
  by (simp add: pipeline_def Let_def loop_guard case_prod_unfold split: sum.split)

lemma load_cache_pending:
  "fst (load_cache unique_addresses (Some geocoded_df)) =
     filter (\<lambda>row. fst row \<notin> set (map full_address geocoded_df)) unique_addresses"
  by (simp add: load_cache_def)

lemma load_cache_loaded:
  "snd (load_cache unique_addresses cache) = (case cache of None \<Rightarrow> [] | Some df \<Rightarrow> df)"
  by (simp add: load_cache_def split: option.splits)

lemma lookups_final_flush: "lookups (trace (final_flush s)) = lookups (trace s)"
  by (simp add: final_flush_def lookups_append)

lemma collision_unique_addresses:
  "unique_addresses_of (map (address_normalizer text_cell)
      (filter_ga [suite_in_city, texas_job, suite_in_street])) =
   [(''1 Main St, Suite 5, Atlanta, GA 30301'', ''Suite 5, Atlanta, GA 30301''),
    (''1 Main St, Suite 5, Atlanta, GA 30301'', ''Atlanta, GA 30301'')]"
  by (simp add: suite_in_city_def suite_in_street_def texas_job_def text_cell_def filter_ga_def
      address_normalizer_def standardize_def make_full_address_def make_simple_address_def
      postal_text_def fillna_def title_def strip_def is_space_def upper_def lower_def
      is_cased_def lowercase_letters_def uppercase_letters_def address_pair_def
      unique_addresses_of_def drop_duplicates_def)

text \<open>
  Claim C2. When the cache file exists, an address \<open>A\<close> that is a key of the loaded
  table, with or without coordinates, is not among the pending rows handed to the loop,
  and the run makes no geocoder call on behalf of \<open>A\<close>.
\<close>

theorem cached_address_not_looked_up:
  "A \<in> set (map full_address geocoded_df) \<Longrightarrow>
     A \<notin> fst ` set (fst (load_cache unique_addresses (Some geocoded_df))) \<and>
     (\<forall>q. (A, q) \<notin> set (lookups (trace (fst
        (pipeline astype_str geocode (Some jobs) (Some geocoded_df) w)))))"
proof
  assume cached: "A \<in> set (map full_address geocoded_df)"
  show excluded: "A \<notin> fst ` set (fst (load_cache U (Some geocoded_df)))" for U
    using cached by (auto simp: load_cache_pending)
  show "\<forall>q. (A, q) \<notin> set (lookups (trace (fst
        (pipeline astype_str geocode (Some jobs) (Some geocoded_df) w))))"
  proof (intro allI notI)
    fix q
    assume "(A, q) \<in> set (lookups (trace (fst
        (pipeline astype_str geocode (Some jobs) (Some geocoded_df) w))))"
    then have "(A, q) \<in> set (lookups (trace (initial_state w (Some geocoded_df)
                  (snd (load_cache (unique_addresses_of (map (address_normalizer astype_str) (filter_ga jobs))) (Some geocoded_df)))))) \<or>
               A \<in> fst ` set (fst (load_cache (unique_addresses_of (map (address_normalizer astype_str) (filter_ga jobs))) (Some geocoded_df)))"
      unfolding pipeline_state lookups_final_flush by (rule geocoding_loop_lookups)
    then show False
      using excluded by (simp add: initial_state_def)
  qed
qed

theorem cached_address_not_looked_up_witness:
  "''1 Main St, Suite 5, Atlanta, GA 30301''
     \<in> set (map full_address [negative_entry ''1 Main St, Suite 5, Atlanta, GA 30301'']) \<and>
   fst (load_cache (unique_addresses_of (map (address_normalizer text_cell)
          (filter_ga [suite_in_city, texas_job, suite_in_street])))
        (Some [negative_entry ''1 Main St, Suite 5, Atlanta, GA 30301''])) = [] \<and>
   (''1 Main St, Suite 5, Atlanta, GA 30301'', ''1 Main St, Suite 5, Atlanta, GA 30301'')
     \<notin> set (lookups (trace (fst (pipeline text_cell suite_geocoder
          (Some [suite_in_city, texas_job, suite_in_street])
          (Some [negative_entry ''1 Main St, Suite 5, Atlanta, GA 30301'']) ()))))"
proof -
  have cached: "''1 Main St, Suite 5, Atlanta, GA 30301''
     \<in> set (map full_address [negative_entry ''1 Main St, Suite 5, Atlanta, GA 30301''])"
    by (simp add: negative_entry_def)
  have pending: "fst (load_cache (unique_addresses_of (map (address_normalizer text_cell)
          (filter_ga [suite_in_city, texas_job, suite_in_street])))
        (Some [negative_entry ''1 Main St, Suite 5, Atlanta, GA 30301''])) = []"
    by (simp add: collision_unique_addresses load_cache_def negative_entry_def)
  from cached_address_not_looked_up [OF cached, of _ text_cell suite_geocoder
         "[suite_in_city, texas_job, suite_in_street]" "()"] cached pending
  show ?thesis by blast
qed

lemma filter_all_cached:
  "\<forall>p \<in> set U. fst p \<in> set (map full_address C) \<Longrightarrow> fst (load_cache U (Some C)) = []"
  by (simp add: load_cache_pending)

text \<open>
  Claim C4. When the cache file holds the table \<open>C\<close> and every unique address is a key
  of \<open>C\<close>, the run makes no lookup and writes the cache once, and the table written is
  \<open>C\<close> itself: the same rows (here even in the same order). The tables are the parsed
  ones; the text of the CSV file is below this model.
\<close>

theorem cache_round_trip:
  "\<forall>p \<in> set (unique_addresses_of (map (address_normalizer astype_str) (filter_ga jobs))).
      fst p \<in> set (map full_address C) \<Longrightarrow>
   cache_file (fst (pipeline astype_str geocode (Some jobs) (Some C) w)) = Some C \<and>
   flushes (trace (fst (pipeline astype_str geocode (Some jobs) (Some C) w))) = [C] \<and>
   lookups (trace (fst (pipeline astype_str geocode (Some jobs) (Some C) w))) = []"
  unfolding pipeline_state
  by (simp add: filter_all_cached load_cache_loaded final_flush_def initial_state_def)

theorem cache_round_trip_witness:
  "map fst (unique_addresses_of (map (address_normalizer text_cell)
        (filter_ga [suite_in_city, texas_job, suite_in_street]))) =
     [''1 Main St, Suite 5, Atlanta, GA 30301'', ''1 Main St, Suite 5, Atlanta, GA 30301''] \<and>
   map full_address [atlanta_entry] = [''1 Main St, Suite 5, Atlanta, GA 30301''] \<and>
   cache_file (fst (pipeline text_cell never_found
      (Some [suite_in_city, texas_job, suite_in_street]) (Some [atlanta_entry]) ())) =
     Some [atlanta_entry] \<and>
   flushes (trace (fst (pipeline text_cell never_found
      (Some [suite_in_city, texas_job, suite_in_street]) (Some [atlanta_entry]) ()))) =
     [[atlanta_entry]]"
proof -
  have pairs: "map fst (unique_addresses_of (map (address_normalizer text_cell)
        (filter_ga [suite_in_city, texas_job, suite_in_street]))) =
     [''1 Main St, Suite 5, Atlanta, GA 30301'', ''1 Main St, Suite 5, Atlanta, GA 30301'']"
    by (simp add: collision_unique_addresses)
  have keys: "map full_address [atlanta_entry] = [''1 Main St, Suite 5, Atlanta, GA 30301'']"
    by (simp add: atlanta_entry_def)
  have cached: "\<forall>p \<in> set (unique_addresses_of (map (address_normalizer text_cell)
        (filter_ga [suite_in_city, texas_job, suite_in_street]))).
      fst p \<in> set (map full_address [atlanta_entry])"
    by (simp add: collision_unique_addresses atlanta_entry_def)
  from cache_round_trip [OF cached, of never_found "()"] pairs keys
  show ?thesis by blast
qed

text \<open>
  Claim C10. With no cache file and no Georgia row there is no lookup, the result list
  stays empty, the table built from it has no \<^verbatim>\<open>latitude\<close> column, and the run ends
  with a \<^verbatim>\<open>KeyError\<close> at the success count, after the (empty) cache has been written
  and before anything is merged or drawn.
\<close>

theorem empty_run_fails:
  "filter_ga jobs = [] \<Longrightarrow>
   pipeline astype_str geocode (Some jobs) None w =
     (\<lparr>world = w, geocoded_results = [], cache_file = Some [], trace = [Flush []]\<rparr>,
      Inl (KeyError ''latitude'')) \<and>
   ''latitude'' \<notin> set (columns (geocoded_results (fst (pipeline astype_str geocode (Some jobs) None w))))"
  by (simp add: pipeline_def unique_addresses_of_def drop_duplicates_def load_cache_def
      initial_state_def final_flush_def success_count_def columns_def)

theorem empty_run_fails_witness:
  "filter_ga [texas_job] = [] \<and>
   pipeline text_cell never_found (Some [texas_job]) None () =
     (\<lparr>world = (), geocoded_results = [], cache_file = Some [], trace = [Flush []]\<rparr>,
      Inl (KeyError ''latitude''))"
proof -
  have no_ga: "filter_ga [texas_job] = []"
    by (simp add: filter_ga_def texas_job_def)
  from empty_run_fails [OF no_ga, of text_cell never_found "()"] no_ga
  show ?thesis by blast
qed

section \<open>A lookup that raises\<close>

lemma geocode_row_trace:
  "trace (geocode_row geocode s row) =
     trace s @ map (Lookup (fst row)) (snd (snd (try_geocode geocode (world s) row))) @
     (if fst (try_geocode geocode (world s) row) = GeocodeException then [ErrorSleep] else []) @
     (if length (geocoded_results (geocode_row geocode s row)) mod 10 = 0
      then [Flush (geocoded_results (geocode_row geocode s row))] else [])"
  by (simp add: geocode_row_def Let_def split: prod.splits)

text \<open>
  Claim C7. When the lookups of a pending row raise (in the first call, or in the
  fallback call), the iteration still ends: it records the negative entry for the row's
  full address, sleeps once after the lookups it made, and the loop goes on with the
  rows that follow, each of which gets its entry too. A missing input file is not
  recovered: the run ends with \<^verbatim>\<open>FileNotFoundError\<close> before anything else happens.
\<close>

theorem lookup_exception_recovered:
  "fst (try_geocode geocode (world s) (address, simple_addr)) = GeocodeException \<Longrightarrow>
   geocoded_results (geocode_row geocode s (address, simple_addr)) =
     geocoded_results s @ [negative_entry address] \<and>
   trace (geocode_row geocode s (address, simple_addr)) =
     trace s @ map (Lookup address) (snd (snd (try_geocode geocode (world s) (address, simple_addr)))) @
     [ErrorSleep] @
     (if Suc (length (geocoded_results s)) mod 10 = 0
      then [Flush (geocoded_results s @ [negative_entry address])] else []) \<and>
   geocoding_loop geocode ((address, simple_addr) # rest) s =
     geocoding_loop geocode rest (geocode_row geocode s (address, simple_addr)) \<and>
   map full_address (geocoded_results (geocoding_loop geocode ((address, simple_addr) # rest) s)) =
     map full_address (geocoded_results s) @ address # map fst rest \<and>
   pipeline astype_str geocode None cache w = (initial_state w cache [], Inl FileNotFoundError)"
proof -
  assume raised: "fst (try_geocode geocode (world s) (address, simple_addr)) = GeocodeException"
  have results: "geocoded_results (geocode_row geocode s (address, simple_addr)) =
     geocoded_results s @ [negative_entry address]"
    by (simp add: geocode_row_results raised result_entry_def)
  have tr: "trace (geocode_row geocode s (address, simple_addr)) =
     trace s @ map (Lookup address) (snd (snd (try_geocode geocode (world s) (address, simple_addr)))) @
     [ErrorSleep] @
     (if Suc (length (geocoded_results s)) mod 10 = 0
      then [Flush (geocoded_results s @ [negative_entry address])] else [])"
    unfolding geocode_row_trace [of geocode s "(address, simple_addr)"] results
    by (simp add: raised)
  have continues: "geocoding_loop geocode ((address, simple_addr) # rest) s =
     geocoding_loop geocode rest (geocode_row geocode s (address, simple_addr))"
    by simp
  have keys: "map full_address (geocoded_results (geocoding_loop geocode ((address, simple_addr) # rest) s)) =
     map full_address (geocoded_results s) @ address # map fst rest"
    by (simp only: geocoding_loop_keys list.map fst_conv)
  have missing: "pipeline astype_str geocode None cache w = (initial_state w cache [], Inl FileNotFoundError)"
    by (simp add: pipeline_def)
  from results tr continues keys missing show ?thesis by blast
qed

theorem lookup_exception_recovered_witness:
  "fst (try_geocode always_raises (world (initial_state () None [])) (''a0'', ''b0'')) = GeocodeException \<and>
   geocoded_results (geocode_row always_raises (initial_state () None []) (''a0'', ''b0'')) =
     [negative_entry ''a0''] \<and>
   trace (geocode_row always_raises (initial_state () None []) (''a0'', ''b0'')) =
     [Lookup ''a0'' ''a0'', ErrorSleep] \<and>
   map full_address (geocoded_results (geocoding_loop always_raises [(''a0'', ''b0''), (''a1'', ''b1'')]
        (initial_state () None []))) = [''a0'', ''a1'']"
proof -
  have raised: "fst (try_geocode always_raises (world (initial_state () None [])) (''a0'', ''b0'')) = GeocodeException"
    by (simp add: try_geocode_def always_raises_def)
  have queries: "snd (snd (try_geocode always_raises (world (initial_state () None [])) (''a0'', ''b0''))) = [''a0'']"
    by (simp add: try_geocode_def always_raises_def)
  note recovered = lookup_exception_recovered [OF raised, of "[(''a1'', ''b1'')]"]
  from recovered [THEN conjunct1]
  have results: "geocoded_results (geocode_row always_raises (initial_state () None []) (''a0'', ''b0'')) =
     [negative_entry ''a0'']"
    by (simp add: initial_state_def)
  from recovered [THEN conjunct2, THEN conjunct1] queries
  have sleeps: "trace (geocode_row always_raises (initial_state () None []) (''a0'', ''b0'')) =
     [Lookup ''a0'' ''a0'', ErrorSleep]"
    by (simp add: initial_state_def)
  from recovered [THEN conjunct2, THEN conjunct2, THEN conjunct2, THEN conjunct1]
  have continues: "map full_address (geocoded_results
      (geocoding_loop always_raises [(''a0'', ''b0''), (''a1'', ''b1'')] (initial_state () None []))) =
     [''a0'', ''a1'']"
    by (simp add: initial_state_def)
  from raised results sleeps continues show ?thesis by blast
qed

section \<open>Writes of the cache file\<close>












section \<open>The merger and the keys of the cache table\<close>

lemma set_map_filter:
  "set (List.map_filter f xs) = {y. \<exists>x \<in> set xs. f x = Some y}"
  by (induction xs) (auto split: option.splits)

lemma resolve_iff:
  "r \<in> set (resolve jobs_ga geocoded_df) \<longleftrightarrow>
     (\<exists>j \<in> set jobs_ga. \<exists>e \<in> set geocoded_df. \<exists>lat lon.
        full_address e = job_full_address j \<and> latitude e = Some lat \<and> longitude e = Some lon \<and>
        r = \<lparr>resolved_job = j, resolved_latitude = lat, resolved_longitude = lon,
              geometry = Point lon lat\<rparr>)"
  (is "?lhs \<longleftrightarrow> ?rhs")
proof
  assume ?lhs
  then obtain joined where joined: "joined \<in> set (merge_left jobs_ga geocoded_df)"
    and r: "dropna_geometry joined = Some r"
    by (auto simp: resolve_def set_map_filter)
  from r obtain j lat lon where shape: "joined = (j, Some lat, Some lon)"
    and r_eq: "r = \<lparr>resolved_job = j, resolved_latitude = lat, resolved_longitude = lon,
              geometry = Point lon lat\<rparr>"
    by (auto simp: dropna_geometry_def split: prod.splits option.splits)
  from joined shape obtain e where "j \<in> set jobs_ga" "e \<in> set geocoded_df"
    "full_address e = job_full_address j" "latitude e = Some lat" "longitude e = Some lon"
    by (auto simp: merge_left_def Let_def split: if_splits)
  with r_eq show ?rhs by blast
next
  assume ?rhs
  then obtain j e lat lon where j: "j \<in> set jobs_ga" and e: "e \<in> set geocoded_df"
    and key: "full_address e = job_full_address j"
    and coords: "latitude e = Some lat" "longitude e = Some lon"
    and r_eq: "r = \<lparr>resolved_job = j, resolved_latitude = lat, resolved_longitude = lon,
              geometry = Point lon lat\<rparr>"
    by blast
  from e key have nonempty: "filter (\<lambda>e. full_address e = job_full_address j) geocoded_df \<noteq> []"
    by (auto simp: filter_empty_conv)
  with j e key coords have "(j, Some lat, Some lon) \<in> set (merge_left jobs_ga geocoded_df)"
    by (force simp: merge_left_def Let_def)
  moreover have "dropna_geometry (j, Some lat, Some lon) = Some r"
    by (simp add: dropna_geometry_def r_eq)
  ultimately show ?lhs
    by (auto simp: resolve_def set_map_filter)
qed

lemma unique_key_entry:
  "distinct (map full_address geocoded_df) \<Longrightarrow> e \<in> set geocoded_df \<Longrightarrow> e' \<in> set geocoded_df \<Longrightarrow>
     full_address e = full_address e' \<Longrightarrow> e = e'"
  by (auto simp: distinct_map dest: inj_onD)

lemma pipeline_Inr:
  "pipeline astype_str geocode (Some jobs) cache w = (s, Inr rs) \<Longrightarrow>
     rs = resolve (map (address_normalizer astype_str) (filter_ga jobs)) (geocoded_results s) \<and>
     cache_file s = Some (geocoded_results s)"
proof -
  assume run: "pipeline astype_str geocode (Some jobs) cache w = (s, Inr rs)"
  then have s: "s = fst (pipeline astype_str geocode (Some jobs) cache w)"
    and rs: "snd (pipeline astype_str geocode (Some jobs) cache w) = Inr rs"
    by simp_all
  from rs have "rs = resolve (map (address_normalizer astype_str) (filter_ga jobs)) (geocoded_results s)"
    unfolding pipeline_result s [symmetric] by (auto split: sum.splits)
  moreover have "cache_file s = Some (geocoded_results s)"
    unfolding s pipeline_state by (simp add: final_flush_def)
  ultimately show ?thesis by blast
qed

text \<open>
  What the merger does for a run that reaches it: the table joined is the one just
  written to the cache file; a resolved row carries the coordinates of an entry with
  its full address and its point is (longitude, latitude). When the keys of the table
  are distinct, that entry is the only one with the key, and a row whose key has an
  entry with an empty coordinate is not resolved.
\<close>

lemma merge_correct:
  "pipeline astype_str geocode (Some jobs) cache w = (s, Inr rs) \<Longrightarrow>
   cache_file s = Some (geocoded_results s) \<and>
   (\<forall>r \<in> set rs.
      geometry r = Point (resolved_longitude r) (resolved_latitude r) \<and>
      (\<exists>e \<in> set (geocoded_results s).
         full_address e = job_full_address (resolved_job r) \<and>
         latitude e = Some (resolved_latitude r) \<and> longitude e = Some (resolved_longitude r))) \<and>
   (distinct (map full_address (geocoded_results s)) \<longrightarrow>
      (\<forall>r \<in> set rs. \<forall>e \<in> set (geocoded_results s).
         full_address e = job_full_address (resolved_job r) \<longrightarrow>
         latitude e = Some (resolved_latitude r) \<and> longitude e = Some (resolved_longitude r)) \<and>
      (\<forall>j \<in> set (map (address_normalizer astype_str) (filter_ga jobs)).
       \<forall>e \<in> set (geocoded_results s).
         full_address e = job_full_address j \<and> (latitude e = None \<or> longitude e = None) \<longrightarrow>
         j \<notin> resolved_job ` set rs))"
proof -
  assume run: "pipeline astype_str geocode (Some jobs) cache w = (s, Inr rs)"
  let ?jobs_ga = "map (address_normalizer astype_str) (filter_ga jobs)"
  let ?df = "geocoded_results s"
  from pipeline_Inr [OF run] have rs: "rs = resolve ?jobs_ga ?df"
    and written: "cache_file s = Some ?df"
    by blast+
  have some: "\<forall>r \<in> set rs.
      geometry r = Point (resolved_longitude r) (resolved_latitude r) \<and>
      (\<exists>e \<in> set ?df. full_address e = job_full_address (resolved_job r) \<and>
         latitude e = Some (resolved_latitude r) \<and> longitude e = Some (resolved_longitude r))"
    unfolding rs by (fastforce simp: resolve_iff)
  have the_entry: "\<forall>r \<in> set rs. \<forall>e \<in> set ?df.
         full_address e = job_full_address (resolved_job r) \<longrightarrow>
         latitude e = Some (resolved_latitude r) \<and> longitude e = Some (resolved_longitude r)"
    if keys: "distinct (map full_address ?df)"
  proof (intro ballI impI)
    fix r e
    assume r: "r \<in> set rs" and e: "e \<in> set ?df"
      and key: "full_address e = job_full_address (resolved_job r)"
    from some r obtain e' where e': "e' \<in> set ?df"
      "full_address e' = job_full_address (resolved_job r)"
      "latitude e' = Some (resolved_latitude r)" "longitude e' = Some (resolved_longitude r)"
      by blast
    from unique_key_entry [OF keys e e'(1)] key e'(2) have "e = e'" by simp
    with e' show "latitude e = Some (resolved_latitude r) \<and> longitude e = Some (resolved_longitude r)"
      by simp
  qed
  have negative: "\<forall>j \<in> set ?jobs_ga. \<forall>e \<in> set ?df.
         full_address e = job_full_address j \<and> (latitude e = None \<or> longitude e = None) \<longrightarrow>
         j \<notin> resolved_job ` set rs"
    if keys: "distinct (map full_address ?df)"
  proof (intro ballI impI notI)
    fix j e
    assume e: "e \<in> set ?df"
      and neg: "full_address e = job_full_address j \<and> (latitude e = None \<or> longitude e = None)"
      and present: "j \<in> resolved_job ` set rs"
    from present obtain r where r: "r \<in> set rs" and j: "j = resolved_job r" by blast
    from the_entry [OF keys] r e neg j
    have "latitude e = Some (resolved_latitude r) \<and> longitude e = Some (resolved_longitude r)"
      by blast
    with neg show False by auto
  qed
  from written some the_entry negative show ?thesis by blast
qed

text \<open>
  The keys of the final table are the keys loaded followed by the full addresses of the
  pending rows, one entry each. They are distinct when the loaded keys are and no two
  unique pairs share their full address.
\<close>

lemma pipeline_cache_keys:
  "map full_address (geocoded_results (fst (pipeline astype_str geocode (Some jobs) cache w))) =
     map full_address (snd (load_cache
        (unique_addresses_of (map (address_normalizer astype_str) (filter_ga jobs))) cache)) @
     map fst (fst (load_cache
        (unique_addresses_of (map (address_normalizer astype_str) (filter_ga jobs))) cache))"
  unfolding pipeline_state
  by (simp add: final_flush_def geocoding_loop_keys initial_state_def)

lemma final_cache_keys_distinct:
  "distinct (map full_address (snd (load_cache
        (unique_addresses_of (map (address_normalizer astype_str) (filter_ga jobs))) cache))) \<Longrightarrow>
   distinct (map fst (unique_addresses_of (map (address_normalizer astype_str) (filter_ga jobs)))) \<Longrightarrow>
   distinct (map full_address
     (geocoded_results (fst (pipeline astype_str geocode (Some jobs) cache w))))"
  unfolding pipeline_cache_keys
  by (cases cache) (auto simp: load_cache_def distinct_map_filter)

text \<open>
  The run on the two rows that share one full address but not the simple address, with
  no cache file.
\<close>

lemma collision_run_state:
  "fst (pipeline text_cell suite_geocoder (Some [suite_in_city, texas_job, suite_in_street]) None ()) =
     \<lparr>world = (),
      geocoded_results =
        [atlanta_entry, negative_entry ''1 Main St, Suite 5, Atlanta, GA 30301''],
      cache_file =
        Some [atlanta_entry, negative_entry ''1 Main St, Suite 5, Atlanta, GA 30301''],
      trace =
        [Lookup ''1 Main St, Suite 5, Atlanta, GA 30301'' ''1 Main St, Suite 5, Atlanta, GA 30301'',
         Lookup ''1 Main St, Suite 5, Atlanta, GA 30301'' ''Suite 5, Atlanta, GA 30301'',
         Lookup ''1 Main St, Suite 5, Atlanta, GA 30301'' ''1 Main St, Suite 5, Atlanta, GA 30301'',
         Lookup ''1 Main St, Suite 5, Atlanta, GA 30301'' ''Atlanta, GA 30301'',
         Flush [atlanta_entry, negative_entry ''1 Main St, Suite 5, Atlanta, GA 30301'']]\<rparr>"
  unfolding pipeline_state collision_unique_addresses
  by (simp add: load_cache_def initial_state_def final_flush_def geocode_row_def try_geocode_def
      suite_geocoder_def result_entry_def atlanta_entry_def Let_def)

lemma collision_run_resolved:
  "map_sum id (map (job_full_address \<circ> resolved_job))
     (snd (pipeline text_cell suite_geocoder (Some [suite_in_city, texas_job, suite_in_street]) None ())) =
     Inr [''1 Main St, Suite 5, Atlanta, GA 30301'', ''1 Main St, Suite 5, Atlanta, GA 30301''] \<and>
   map_sum id (map geometry)
     (snd (pipeline text_cell suite_geocoder (Some [suite_in_city, texas_job, suite_in_street]) None ())) =
     Inr [Point (- 84) 33, Point (- 84) 33]"
  by code_simp

text \<open>
  Claim C1 (the script breaks it). Both pairs survive the deduplication, because they
  differ in the simple address; whatever the geocoder answers, the loop records one
  entry for each of them, and the cache file written at the end holds two rows with
  the same full address.
\<close>

theorem colliding_rows_cached_twice:
  "map full_address (geocoded_results (fst (pipeline text_cell geocode
      (Some [suite_in_city, texas_job, suite_in_street]) None w))) =
     [''1 Main St, Suite 5, Atlanta, GA 30301'', ''1 Main St, Suite 5, Atlanta, GA 30301''] \<and>
   cache_file (fst (pipeline text_cell geocode
      (Some [suite_in_city, texas_job, suite_in_street]) None w)) =
     Some (geocoded_results (fst (pipeline text_cell geocode
      (Some [suite_in_city, texas_job, suite_in_street]) None w)))"
proof -
  have keys: "map full_address (geocoded_results (fst (pipeline text_cell geocode
      (Some [suite_in_city, texas_job, suite_in_street]) None w))) =
     [''1 Main St, Suite 5, Atlanta, GA 30301'', ''1 Main St, Suite 5, Atlanta, GA 30301'']"
    unfolding pipeline_cache_keys collision_unique_addresses
    by (simp add: load_cache_def)
  have written: "cache_file (fst (pipeline text_cell geocode
      (Some [suite_in_city, texas_job, suite_in_street]) None w)) =
     Some (geocoded_results (fst (pipeline text_cell geocode
      (Some [suite_in_city, texas_job, suite_in_street]) None w)))"
    unfolding pipeline_state by (simp add: final_flush_def)
  from keys written show ?thesis by blast
qed

text \<open>
  Claim C3 (the script breaks it, through the same two cache rows). In that run the
  full address has a negative entry in the final cache table, and yet both rows with
  that address are in the resolved set, at the coordinates of the other entry; their
  points are built as (longitude, latitude).
\<close>

theorem colliding_rows_resolved_despite_negative_entry:
  "negative_entry ''1 Main St, Suite 5, Atlanta, GA 30301'' \<in>
     set (geocoded_results (fst (pipeline text_cell suite_geocoder
        (Some [suite_in_city, texas_job, suite_in_street]) None ()))) \<and>
   map_sum id (map (job_full_address \<circ> resolved_job))
     (snd (pipeline text_cell suite_geocoder (Some [suite_in_city, texas_job, suite_in_street]) None ())) =
     Inr [''1 Main St, Suite 5, Atlanta, GA 30301'', ''1 Main St, Suite 5, Atlanta, GA 30301''] \<and>
   map_sum id (map geometry)
     (snd (pipeline text_cell suite_geocoder (Some [suite_in_city, texas_job, suite_in_street]) None ())) =
     Inr [Point (- 84) 33, Point (- 84) 33]"
  using collision_run_resolved by (simp add: collision_run_state)

end
